theory Spec2Isabelle
  imports Complex_Main "HOL-Library.AList"
begin

section \<open>Data model of \<^verbatim>\<open>H_ACRobust.hpp\<close>\<close>

text \<open>
  The header defines one struct, \<^verbatim>\<open>GeometricFilter_HMatrix_AC\<close>, with two entry points
  (\<^verbatim>\<open>Robust_estimation\<close>, \<^verbatim>\<open>Geometry_guided_matching\<close>) and three static helpers that
  export feature positions to matrices. The helper that takes a map of regions is called
  by neither entry point and is left out. Everything else the header calls lives in
  headers that are not part of the sources at hand; those callees are parameters of the
  model (the record \<open>collaborators\<close> below).
\<close>

subsection \<open>Scalars\<close>

text \<open>
  A C++ \<^verbatim>\<open>double\<close>. Finite values are idealised as reals; the three special values are
  kept apart because the code compares against \<^verbatim>\<open>std::numeric_limits<double>::infinity()\<close>.
\<close>

datatype double = Finite real | PosInf | NegInf | NaN

definition infinity :: double where
  "infinity = PosInf"

text \<open>\<^verbatim>\<open>Square(x)\<close> is \<^verbatim>\<open>x * x\<close>.\<close>

fun Square :: "double \<Rightarrow> double" where
  "Square (Finite v) = Finite (v * v)"
| "Square PosInf = PosInf"
| "Square NegInf = PosInf"
| "Square NaN = NaN"

text \<open>The test \<^verbatim>\<open>d < 0\<close> on a double; it is false for NaN.\<close>

fun less_zero :: "double \<Rightarrow> bool" where
  "less_zero (Finite v) = (v < 0)"
| "less_zero NegInf = True"
| "less_zero PosInf = False"
| "less_zero NaN = False"

subsection \<open>Indices, matches, matrices\<close>

type_synonym IndexT = nat
type_synonym Pair = "IndexT \<times> IndexT"

text \<open>An \<^verbatim>\<open>IndMatch\<close> is the pair of feature indices \<^verbatim>\<open>(_i, _j)\<close>.\<close>

type_synonym IndMatch = "nat \<times> nat"
type_synonym IndMatches = "IndMatch list"

text \<open>
  \<^verbatim>\<open>MatchesPerDescType\<close> is a \<^verbatim>\<open>std::map\<close> from descriptor type to \<^verbatim>\<open>IndMatches\<close>: an
  association list read with \<^const>\<open>map_of\<close> and written with \<^const>\<open>AList.update\<close>
  (\<^verbatim>\<open>matches[descType] = ...\<close>); \<^verbatim>\<open>clear()\<close> gives \<open>[]\<close>.
\<close>

type_synonym 'd MatchesPerDescType = "('d \<times> IndMatches) list"

definition getNbAllMatches :: "'d MatchesPerDescType \<Rightarrow> nat" where
  "getNbAllMatches m = sum_list (map (\<lambda>e. length (snd e)) m)"

type_synonym Vec2 = "real \<times> real"

text \<open>A \<^verbatim>\<open>Mat\<close> with two rows is the list of its columns.\<close>

type_synonym Mat = "Vec2 list"

type_synonym Mat3 = "real list list"

definition Mat3_Identity :: Mat3 where
  "Mat3_Identity = [[1, 0, 0], [0, 1, 0], [0, 0, 1]]"

text \<open>A \<^verbatim>\<open>PointFeature\<close>; \<open>feat_x\<close> and \<open>feat_y\<close> are its accessors \<^verbatim>\<open>x()\<close> and \<^verbatim>\<open>y()\<close>.\<close>

record PointFeature =
  feat_x :: real
  feat_y :: real

definition coords :: "PointFeature \<Rightarrow> Vec2" where
  "coords f = (feat_x f, feat_y f)"

subsection \<open>The scene container\<close>

record View =
  ui_width :: nat
  ui_height :: nat
  id_intrinsic :: IndexT

text \<open>\<^verbatim>\<open>cameras::IntrinsicBase\<close>, seen through the two virtual methods the header calls.\<close>

record IntrinsicBase =
  isValid :: bool
  get_ud_pixel :: "Vec2 \<Rightarrow> Vec2"

text \<open>
  \<^verbatim>\<open>views\<close> and \<^verbatim>\<open>intrinsics\<close> are hash maps to shared pointers. A view pointer is taken to
  be non-null (the code dereferences it unchecked); an intrinsics pointer may be null, and
  the code passes \<^verbatim>\<open>.get()\<close> on as a possibly null raw pointer.
\<close>

record SfM_Data =
  views :: "IndexT \<rightharpoonup> View"
  intrinsics :: "IndexT \<rightharpoonup> IntrinsicBase option"

subsection \<open>Regions\<close>

record 'x Regions =
  GetRegionsPositions :: "PointFeature list"
  Descriptors :: 'x

text \<open>
  The regions provider (\<^verbatim>\<open>Regions_or_Features_ProviderT\<close>, \<^verbatim>\<open>features::RegionsPerView\<close>),
  seen through the methods the header calls.
\<close>

record ('d, 'x) RegionsPerView =
  getCommonDescTypes :: "Pair \<Rightarrow> 'd list"
  getRegions :: "IndexT \<Rightarrow> 'd \<Rightarrow> 'x Regions"
  getAllRegions :: "IndexT \<Rightarrow> ('d \<times> 'x Regions) list"

subsection \<open>The kernel and the filter object\<close>

text \<open>The arguments of the \<^verbatim>\<open>ACKernelAdaptor\<close> constructor, in order.\<close>

record ACKernelAdaptor =
  kernel_xI :: Mat
  kernel_wI :: nat
  kernel_hI :: nat
  kernel_xJ :: Mat
  kernel_wJ :: nat
  kernel_hJ :: nat
  bPointToLine :: bool

record GeometricFilter_HMatrix_AC =
  m_dPrecision :: double
  m_stIteration :: nat
  m_H :: Mat3
  m_dPrecision_robust :: double

text \<open>The constructor; its defaults are \<open>infinity\<close> and \<open>1024\<close>.\<close>

definition GeometricFilter_HMatrix_AC_new :: "double \<Rightarrow> nat \<Rightarrow> GeometricFilter_HMatrix_AC" where
  "GeometricFilter_HMatrix_AC_new dPrecision iteration =
     \<lparr>m_dPrecision = dPrecision, m_stIteration = iteration,
      m_H = Mat3_Identity, m_dPrecision_robust = infinity\<rparr>"

subsection \<open>Callees defined outside the header\<close>

text \<open>
  What the header uses and does not define. \<open>MINIMUM_SAMPLES\<close> is the static constant
  \<^verbatim>\<open>KernelType::MINIMUM_SAMPLES\<close> and \<open>OPENMVG_MINIMUM_SAMPLES_COEF\<close> the macro of that name;
  the specification gives them as 4 (the four-point homography solver) and 2.5.
  Output parameters are results:
  \<^verbatim>\<open>ACRANSAC\<close> returns the inlier vector it filled, the content of the model slot
  \<^verbatim>\<open>&m_H\<close> it was handed (given its content before the call), and its return pair;
  the position-only \<^verbatim>\<open>GuidedMatching\<close> returns the matches it put into the empty vector
  it was given; the other \<^verbatim>\<open>GuidedMatching\<close> and \<^verbatim>\<open>copyInlierMatches\<close> take the map they
  write into and return it; \<open>getDeduplicated\<close> stands for building an
  \<^verbatim>\<open>IndMatchDecorator<float>\<close> from matches and the two feature lists and calling
  \<^verbatim>\<open>getDeduplicated\<close> on it.
\<close>

record ('d, 'x) collaborators =
  MINIMUM_SAMPLES :: nat
  OPENMVG_MINIMUM_SAMPLES_COEF :: real
  MatchesPairToMat ::
    "Pair \<Rightarrow> 'd MatchesPerDescType \<Rightarrow> SfM_Data \<Rightarrow> ('d, 'x) RegionsPerView \<Rightarrow> 'd list
      \<Rightarrow> Mat \<times> Mat"
  ACRANSAC ::
    "ACKernelAdaptor \<Rightarrow> nat \<Rightarrow> Mat3 \<Rightarrow> double \<Rightarrow> nat list \<times> Mat3 \<times> (double \<times> double)"
  copyInlierMatches ::
    "nat list \<Rightarrow> 'd MatchesPerDescType \<Rightarrow> 'd list \<Rightarrow> 'd MatchesPerDescType
      \<Rightarrow> 'd MatchesPerDescType"
  GuidedMatching :: "Mat3 \<Rightarrow> Mat \<Rightarrow> Mat \<Rightarrow> double \<Rightarrow> IndMatches"
  GuidedMatching_regions ::
    "Mat3 \<Rightarrow> IntrinsicBase option \<Rightarrow> ('d \<times> 'x Regions) list
      \<Rightarrow> IntrinsicBase option \<Rightarrow> ('d \<times> 'x Regions) list
      \<Rightarrow> double \<Rightarrow> double \<Rightarrow> 'd MatchesPerDescType \<Rightarrow> 'd MatchesPerDescType"
  getDeduplicated :: "IndMatches \<Rightarrow> PointFeature list \<Rightarrow> PointFeature list \<Rightarrow> IndMatches"

section \<open>\<^verbatim>\<open>Robust_estimation\<close>\<close>

text \<open>
  How a call can end other than by returning: \<^verbatim>\<open>std::out_of_range\<close>, thrown by \<^verbatim>\<open>.at()\<close>
  on a key that is not in the map, and the index assertion of the matrix library when a
  column outside the matrix is written.
\<close>

datatype fault = out_of_range | index_assertion

text \<open>
  What a call leaves behind: how it ended (\<open>Inr\<close> the returned bool, \<open>Inl\<close> an exception
  leaving the function), the object, the output parameter, and the local vector
  \<^verbatim>\<open>inliers\<close> as it stood at that point (empty where the function left before
  declaring it).
\<close>

record 'd estimation =
  est_outcome :: "fault + bool"
  est_this :: GeometricFilter_HMatrix_AC
  est_geometricInliersPerType :: "'d MatchesPerDescType"
  est_inliers :: "nat list"

definition Robust_estimation ::
  "('d, 'x) collaborators \<Rightarrow> GeometricFilter_HMatrix_AC \<Rightarrow> SfM_Data \<Rightarrow> ('d, 'x) RegionsPerView
    \<Rightarrow> Pair \<Rightarrow> 'd MatchesPerDescType \<Rightarrow> 'd MatchesPerDescType \<Rightarrow> 'd estimation" where
  "Robust_estimation env this sfmData regionsPerView pairIndex putativeMatchesPerType
       geometricInliersPerType =
    (let cleared = [] :: 'd MatchesPerDescType;
         iIndex = fst pairIndex;
         jIndex = snd pairIndex;
         descTypes = getCommonDescTypes regionsPerView pairIndex
     in if descTypes = [] then
          \<lparr>est_outcome = Inr False, est_this = this,
           est_geometricInliersPerType = cleared, est_inliers = []\<rparr>
        else
          (let (xI, xJ) = MatchesPairToMat env pairIndex putativeMatchesPerType sfmData
                            regionsPerView descTypes
           in case (views sfmData iIndex, views sfmData jIndex) of
                (Some view_I, Some view_J) \<Rightarrow>
                  (let kernel = \<lparr>kernel_xI = xI, kernel_wI = ui_width view_I,
                                 kernel_hI = ui_height view_I,
                                 kernel_xJ = xJ, kernel_wJ = ui_width view_J,
                                 kernel_hJ = ui_height view_J,
                                 bPointToLine = False\<rparr>;
                       upper_bound_precision = Square (m_dPrecision this);
                       (inliers, H, ACRansacOut) =
                          ACRANSAC env kernel (m_stIteration this) (m_H this)
                            upper_bound_precision;
                       this1 = this\<lparr>m_H := H\<rparr>
                   in if real (length inliers)
                           \<le> real (MINIMUM_SAMPLES env) * OPENMVG_MINIMUM_SAMPLES_COEF env
                      then
                        \<lparr>est_outcome = Inr False, est_this = this1,
                         est_geometricInliersPerType = cleared, est_inliers = []\<rparr>
                      else
                        \<lparr>est_outcome = Inr True,
                         est_this = this1\<lparr>m_dPrecision_robust := fst ACRansacOut\<rparr>,
                         est_geometricInliersPerType =
                           copyInlierMatches env inliers putativeMatchesPerType descTypes cleared,
                         est_inliers = inliers\<rparr>)
              | _ \<Rightarrow>
                  \<lparr>est_outcome = Inl out_of_range, est_this = this,
                   est_geometricInliersPerType = cleared, est_inliers = []\<rparr>))"

section \<open>Exporting feature positions to matrices\<close>

text \<open>
  The two loops of \<^verbatim>\<open>fillMatricesWithUndistortFeatures\<close> differ only in the value written;
  \<open>fill_loop\<close> is that loop, started at column \<open>i\<close>. The function does not resize \<open>m\<close>:
  writing a column the matrix does not have is the library's index assertion.
\<close>

fun fill_loop :: "(PointFeature \<Rightarrow> Vec2) \<Rightarrow> PointFeature list \<Rightarrow> nat \<Rightarrow> Mat \<Rightarrow> Mat option" where
  "fill_loop col [] i m = Some m"
| "fill_loop col (iter # rest) i m =
     (if i < length m then fill_loop col rest (Suc i) (m[i := col iter]) else None)"

definition fillMatricesWithUndistortFeatures ::
  "IntrinsicBase option \<Rightarrow> PointFeature list \<Rightarrow> Mat \<Rightarrow> Mat option" where
  "fillMatricesWithUndistortFeatures cam vec_feats m =
     (case cam of
        Some c \<Rightarrow>
          if isValid c
          then fill_loop (\<lambda>iter. get_ud_pixel c (feat_x iter, feat_y iter)) vec_feats 0 m
          else fill_loop coords vec_feats 0 m
      | None \<Rightarrow> fill_loop coords vec_feats 0 m)"

text \<open>
  The overload of \<^verbatim>\<open>createMatricesWithUndistortFeatures\<close> on a feature vector:
  \<^verbatim>\<open>m.resize(2, vec_feats.size())\<close>, then fill. The content of a resized matrix is
  unspecified; every column of it is written before it is read.
\<close>

definition createMatricesWithUndistortFeatures ::
  "IntrinsicBase option \<Rightarrow> PointFeature list \<Rightarrow> Mat option" where
  "createMatricesWithUndistortFeatures cam vec_feats =
     (let nbRegions = length vec_feats
      in fillMatricesWithUndistortFeatures cam vec_feats (replicate nbRegions (0, 0)))"

section \<open>\<^verbatim>\<open>Geometry_guided_matching\<close>\<close>

record 'd guided =
  gm_outcome :: "fault + bool"
  gm_this :: GeometricFilter_HMatrix_AC
  gm_matches :: "'d MatchesPerDescType"

text \<open>The body of the loop over \<^verbatim>\<open>descTypes\<close> in the branch \<^verbatim>\<open>dDistanceRatio < 0\<close>.\<close>

definition guided_positions_step ::
  "('d, 'x) collaborators \<Rightarrow> GeometricFilter_HMatrix_AC
    \<Rightarrow> IntrinsicBase option \<Rightarrow> IntrinsicBase option \<Rightarrow> ('d, 'x) RegionsPerView
    \<Rightarrow> IndexT \<Rightarrow> IndexT \<Rightarrow> 'd \<Rightarrow> IndMatches option" where
  "guided_positions_step env this cam_I cam_J regionsPerView viewId_I viewId_J descType =
     (let regions_I = getRegions regionsPerView viewId_I descType;
          regions_J = getRegions regionsPerView viewId_J descType;
          pointsFeaturesI = GetRegionsPositions regions_I;
          pointsFeaturesJ = GetRegionsPositions regions_J
      in case (createMatricesWithUndistortFeatures cam_I pointsFeaturesI,
               createMatricesWithUndistortFeatures cam_J pointsFeaturesJ) of
           (Some xI, Some xJ) \<Rightarrow>
             (let localMatches = GuidedMatching env (m_H this) xI xJ
                                   (Square (m_dPrecision_robust this))
              in Some (getDeduplicated env localMatches pointsFeaturesI pointsFeaturesJ))
         | _ \<Rightarrow> None)"

fun guided_positions_loop ::
  "('d, 'x) collaborators \<Rightarrow> GeometricFilter_HMatrix_AC
    \<Rightarrow> IntrinsicBase option \<Rightarrow> IntrinsicBase option \<Rightarrow> ('d, 'x) RegionsPerView
    \<Rightarrow> IndexT \<Rightarrow> IndexT \<Rightarrow> 'd list \<Rightarrow> 'd MatchesPerDescType
    \<Rightarrow> fault + 'd MatchesPerDescType" where
  "guided_positions_loop env this cam_I cam_J regionsPerView viewId_I viewId_J [] matches =
     Inr matches"
| "guided_positions_loop env this cam_I cam_J regionsPerView viewId_I viewId_J
       (descType # rest) matches =
     (case guided_positions_step env this cam_I cam_J regionsPerView viewId_I viewId_J descType of
        None \<Rightarrow> Inl index_assertion
      | Some localMatches \<Rightarrow>
          guided_positions_loop env this cam_I cam_J regionsPerView viewId_I viewId_J rest
            (AList.update descType localMatches matches))"

text \<open>
  \<^verbatim>\<open>count(id) ? at(id).get() : nullptr\<close> on the intrinsics map.
\<close>

definition intrinsic_of :: "SfM_Data \<Rightarrow> View \<Rightarrow> IntrinsicBase option" where
  "intrinsic_of sfmData view =
     (case intrinsics sfmData (id_intrinsic view) of Some ptr \<Rightarrow> ptr | None \<Rightarrow> None)"

text \<open>
  The block guarded by \<^verbatim>\<open>m_dPrecision_robust != infinity\<close>, up to the final \<^verbatim>\<open>return\<close>.
  A failed index assertion ends the program, so no state is observed after it.
\<close>

definition guided_block ::
  "('d, 'x) collaborators \<Rightarrow> GeometricFilter_HMatrix_AC \<Rightarrow> SfM_Data \<Rightarrow> ('d, 'x) RegionsPerView
    \<Rightarrow> Pair \<Rightarrow> double \<Rightarrow> 'd MatchesPerDescType \<Rightarrow> 'd guided" where
  "guided_block env this sfmData regionsPerView imageIdsPair dDistanceRatio matches =
     (let descTypes = getCommonDescTypes regionsPerView imageIdsPair
      in if descTypes = [] then
           \<lparr>gm_outcome = Inr False, gm_this = this, gm_matches = matches\<rparr>
         else
           (let viewId_I = fst imageIdsPair;
                viewId_J = snd imageIdsPair
            in case (views sfmData viewId_I, views sfmData viewId_J) of
                 (Some view_I, Some view_J) \<Rightarrow>
                   (let cam_I = intrinsic_of sfmData view_I;
                        cam_J = intrinsic_of sfmData view_J
                    in if less_zero dDistanceRatio then
                         (case guided_positions_loop env this cam_I cam_J regionsPerView
                                 viewId_I viewId_J descTypes matches of
                            Inl f \<Rightarrow>
                              \<lparr>gm_outcome = Inl f, gm_this = this, gm_matches = matches\<rparr>
                          | Inr matches1 \<Rightarrow>
                              \<lparr>gm_outcome = Inr (getNbAllMatches matches1 \<noteq> 0),
                               gm_this = this, gm_matches = matches1\<rparr>)
                       else
                         (let matches1 =
                                GuidedMatching_regions env (m_H this)
                                  cam_I (getAllRegions regionsPerView viewId_I)
                                  cam_J (getAllRegions regionsPerView viewId_J)
                                  (Square (m_dPrecision_robust this)) (Square dDistanceRatio)
                                  matches
                          in \<lparr>gm_outcome = Inr (getNbAllMatches matches1 \<noteq> 0),
                              gm_this = this, gm_matches = matches1\<rparr>))
               | _ \<Rightarrow>
                   \<lparr>gm_outcome = Inl out_of_range, gm_this = this, gm_matches = matches\<rparr>))"

definition Geometry_guided_matching ::
  "('d, 'x) collaborators \<Rightarrow> GeometricFilter_HMatrix_AC \<Rightarrow> SfM_Data \<Rightarrow> ('d, 'x) RegionsPerView
    \<Rightarrow> Pair \<Rightarrow> double \<Rightarrow> 'd MatchesPerDescType \<Rightarrow> 'd guided" where
  "Geometry_guided_matching env this sfmData regionsPerView imageIdsPair dDistanceRatio matches =
     (if m_dPrecision_robust this \<noteq> infinity then
        guided_block env this sfmData regionsPerView imageIdsPair dDistanceRatio matches
      else
        \<lparr>gm_outcome = Inr (getNbAllMatches matches \<noteq> 0), gm_this = this,
         gm_matches = matches\<rparr>)"

section \<open>Derived notions used in the statements\<close>

text \<open>
  The column \<^verbatim>\<open>fillMatricesWithUndistortFeatures\<close> writes for one feature: the undistorted
  pixel when the camera pointer is non-null and the camera valid, the raw coordinates
  otherwise.
\<close>

definition ud_column :: "IntrinsicBase option \<Rightarrow> PointFeature \<Rightarrow> Vec2" where
  "ud_column cam f =
     (case cam of
        Some c \<Rightarrow> if isValid c then get_ud_pixel c (feat_x f, feat_y f) else coords f
      | None \<Rightarrow> coords f)"

section \<open>Projecting inliers back to matches, from its specification\<close>

text \<open>The matches stored under a descriptor type; none if the type is not a key.\<close>

definition getMatches :: "'d MatchesPerDescType \<Rightarrow> 'd \<Rightarrow> IndMatches" where
  "getMatches m d = (case map_of m d of Some ms \<Rightarrow> ms | None \<Rightarrow> [])"

text \<open>
  The columns of the point matrix pair, each with the descriptor type and match it comes
  from: the correspondences of the descriptor types used, type after type.
\<close>

definition putative_columns :: "'d MatchesPerDescType \<Rightarrow> 'd list \<Rightarrow> ('d \<times> IndMatch) list" where
  "putative_columns putative descTypes =
     concat (map (\<lambda>d. map (Pair d) (getMatches putative d)) descTypes)"

definition push_back_match :: "'d \<Rightarrow> IndMatch \<Rightarrow> 'd MatchesPerDescType \<Rightarrow> 'd MatchesPerDescType" where
  "push_back_match d m out = AList.update d (getMatches out d @ [m]) out"

text \<open>
  Modelled from the spec: \<^verbatim>\<open>copyInlierMatches\<close> (\<^verbatim>\<open>Geometric_Filter_utils.hpp\<close>), which is
  not among the sources. Section 3 of the specification: the inlier index set is a sequence
  of indices into the point matrix pair, whose width is the total correspondence count
  across the descriptor types used, and it is projected back into per-descriptor-type
  correspondences. Each inlier index is looked up among the columns and its match is
  appended under its descriptor type. What happens to an index that is not a column is not
  described; the model skips it.
\<close>

definition copyInlierMatches_spec ::
  "nat list \<Rightarrow> 'd MatchesPerDescType \<Rightarrow> 'd list \<Rightarrow> 'd MatchesPerDescType
    \<Rightarrow> 'd MatchesPerDescType" where
  "copyInlierMatches_spec inliers putative descTypes out =
     (let columns = putative_columns putative descTypes
      in foldl (\<lambda>acc i. if i < length columns
                         then push_back_match (fst (columns ! i)) (snd (columns ! i)) acc
                         else acc)
           out inliers)"



section \<open>Deduplication by coordinates, from its specification\<close>

text \<open>
  One pass over the matches that keeps a match unless one with the same key was kept
  before; \<open>seen\<close> holds the keys kept so far.
\<close>

fun dedup_loop :: "('a \<Rightarrow> 'k) \<Rightarrow> 'k list \<Rightarrow> 'a list \<Rightarrow> 'a list" where
  "dedup_loop key seen [] = []"
| "dedup_loop key seen (m # ms) =
     (if key m \<in> set seen then dedup_loop key seen ms
      else m # dedup_loop key (key m # seen) ms)"

text \<open>
  The pixel coordinates of a match in both images; none when the match names a feature
  that one of the lists does not have.
\<close>

definition decorate ::
  "PointFeature list \<Rightarrow> PointFeature list \<Rightarrow> IndMatch \<Rightarrow> (Vec2 \<times> Vec2) option" where
  "decorate leftFeat rightFeat m =
     (if fst m < length leftFeat \<and> snd m < length rightFeat
      then Some (coords (leftFeat ! fst m), coords (rightFeat ! snd m)) else None)"

text \<open>
  Modelled from the spec: \<^verbatim>\<open>IndMatchDecorator::getDeduplicated\<close>
  (\<^verbatim>\<open>indMatchDecoratorXY.hpp\<close>), which is not among the sources. Section 4.4 of the
  specification: matches that reduce to identical (x,y) pixel coordinates in both images
  are removed by a pass that compares pixel coordinates, not match indices. Of the matches
  with the same coordinates the first is kept, and the order of the others is kept. The
  decorator cannot be built (\<open>None\<close>) when a match names a feature outside the lists.
\<close>

definition getDeduplicated_spec ::
  "IndMatches \<Rightarrow> PointFeature list \<Rightarrow> PointFeature list \<Rightarrow> IndMatches option" where
  "getDeduplicated_spec vec_matches leftFeat rightFeat =
     (if \<forall>m \<in> set vec_matches. decorate leftFeat rightFeat m \<noteq> None
      then Some (dedup_loop (decorate leftFeat rightFeat) [] vec_matches)
      else None)"

section \<open>A concrete scene and concrete collaborators\<close>

text \<open>
  Stand-ins on which the model can be run: an estimator that declares every point an inlier
  and writes a fixed model, a projection that returns all putative matches, guided matchers
  that return one match.
\<close>

definition example_collaborators :: "(nat, unit) collaborators" where
  "example_collaborators =
     \<lparr>MINIMUM_SAMPLES = 4,
      OPENMVG_MINIMUM_SAMPLES_COEF = 5 / 2,
      MatchesPairToMat = (\<lambda>pairIndex putative sfmData regionsPerView descTypes.
         (map (\<lambda>m. (real (fst m), 0)) (concat (map snd putative)),
          map (\<lambda>m. (real (snd m), 0)) (concat (map snd putative)))),
      ACRANSAC = (\<lambda>kern nIter model precision.
         ([0..<length (kernel_xI kern)], [[2, 0, 0], [0, 2, 0], [0, 0, 1]],
          (Finite 3, Finite (- 1)))),
      copyInlierMatches = (\<lambda>inliers putative descTypes out. putative),
      GuidedMatching = (\<lambda>H xI xJ precision. [(0, 0)]),
      GuidedMatching_regions = (\<lambda>H cam_I regions_I cam_J regions_J precision ratio matches.
         AList.update 0 [(0, 0)] matches),
      getDeduplicated = (\<lambda>matches leftFeat rightFeat. matches)\<rparr>"

definition example_scene :: SfM_Data where
  "example_scene =
     \<lparr>views = [0 \<mapsto> \<lparr>ui_width = 640, ui_height = 480, id_intrinsic = 0\<rparr>,
               1 \<mapsto> \<lparr>ui_width = 640, ui_height = 480, id_intrinsic = 7\<rparr>],
      intrinsics = [0 \<mapsto> Some \<lparr>isValid = True, get_ud_pixel = (\<lambda>p. (fst p + 1, snd p))\<rparr>]\<rparr>"

definition example_regions :: "(nat, unit) RegionsPerView" where
  "example_regions =
     \<lparr>getCommonDescTypes = (\<lambda>pair. if pair = (0, 1) then [0] else []),
      getRegions = (\<lambda>view descType.
         \<lparr>GetRegionsPositions = [\<lparr>feat_x = 1, feat_y = 2\<rparr>], Descriptors = ()\<rparr>),
      getAllRegions = (\<lambda>view.
         [(0, \<lparr>GetRegionsPositions = [\<lparr>feat_x = 1, feat_y = 2\<rparr>], Descriptors = ()\<rparr>)])\<rparr>"

text \<open>\<open>n\<close> putative matches \<open>(k, k)\<close> under descriptor type 0.\<close>

definition example_putative :: "nat \<Rightarrow> nat MatchesPerDescType" where
  "example_putative n = [(0, map (\<lambda>k. (k, k)) [0..<n])]"

text \<open>A freshly constructed filter, with the constructor's default arguments.\<close>

definition example_filter :: GeometricFilter_HMatrix_AC where
  "example_filter = GeometricFilter_HMatrix_AC_new infinity 1024"

text \<open>The same scene without view 1.\<close>

definition example_scene_one_view :: SfM_Data where
  "example_scene_one_view =
     \<lparr>views = [0 \<mapsto> \<lparr>ui_width = 640, ui_height = 480, id_intrinsic = 0\<rparr>],
      intrinsics = [0 \<mapsto> Some \<lparr>isValid = True, get_ud_pixel = (\<lambda>p. (fst p + 1, snd p))\<rparr>]\<rparr>"

text \<open>
  An estimation that succeeds on eleven matches, and a second one on the object it leaves,
  which fails on ten.
\<close>

definition example_first_run :: "nat estimation" where
  "example_first_run =
     Robust_estimation example_collaborators example_filter example_scene example_regions
       (0, 1) (example_putative 11) []"

definition example_second_run :: "nat estimation" where
  "example_second_run =
     Robust_estimation example_collaborators (est_this example_first_run) example_scene
       example_regions (0, 1) (example_putative 10) []"

text \<open>
  A pair with two common descriptor types, twelve putative matches of which the last is the
  only one of its type, an estimator that takes every point but the last as an inlier, and
  the projection of the specification.
\<close>

definition example_two_type_regions :: "(nat, unit) RegionsPerView" where
  "example_two_type_regions = example_regions\<lparr>getCommonDescTypes := (\<lambda>pair. [0, 1])\<rparr>"

definition example_two_type_putative :: "nat MatchesPerDescType" where
  "example_two_type_putative = [(0, map (\<lambda>k. (k, k)) [0..<11]), (1, [(20, 20)])]"

definition example_projection_collaborators :: "(nat, unit) collaborators" where
  "example_projection_collaborators =
     example_collaborators
       \<lparr>ACRANSAC := (\<lambda>kern nIter model precision.
          ([0..<length (kernel_xI kern) - 1], [[2, 0, 0], [0, 2, 0], [0, 0, 1]],
           (Finite 3, Finite (- 1)))),
        copyInlierMatches := copyInlierMatches_spec\<rparr>"

definition example_projection_run :: "nat estimation" where
  "example_projection_run =
     Robust_estimation example_projection_collaborators example_filter example_scene
       example_two_type_regions (0, 1) example_two_type_putative []"

text \<open>Two features at the same pixel, and a camera that shifts pixels by one.\<close>

definition example_features :: "PointFeature list" where
  "example_features = [\<lparr>feat_x = 1, feat_y = 2\<rparr>, \<lparr>feat_x = 1, feat_y = 2\<rparr>]"

definition example_camera :: "bool \<Rightarrow> IntrinsicBase" where
  "example_camera valid = \<lparr>isValid = valid, get_ud_pixel = (\<lambda>p. (fst p + 1, snd p))\<rparr>"

text \<open>
  Stand-ins for guided matching that read every argument. The position matcher accepts a
  pair of points when the squared distance between the first, scaled by the diagonal of the
  model, and the second is within the tolerance. The descriptor matcher runs the position
  matcher over all regions of both images jointly and keeps a match when the squared
  difference of the two descriptors is within the ratio it is given. Deduplication is the
  pass of the specification.
\<close>

definition residual_within :: "Mat3 \<Rightarrow> Vec2 \<Rightarrow> Vec2 \<Rightarrow> double \<Rightarrow> bool" where
  "residual_within H a b tolerance =
     (case tolerance of
        Finite q \<Rightarrow>
          (H ! 0 ! 0 * fst a - fst b) * (H ! 0 ! 0 * fst a - fst b)
          + (H ! 1 ! 1 * snd a - snd b) * (H ! 1 ! 1 * snd a - snd b) \<le> q
      | PosInf \<Rightarrow> True
      | _ \<Rightarrow> False)"

definition position_matcher :: "Mat3 \<Rightarrow> Mat \<Rightarrow> Mat \<Rightarrow> double \<Rightarrow> IndMatches" where
  "position_matcher H xI xJ tolerance =
     concat (map (\<lambda>i. map (Pair i)
                         (filter (\<lambda>j. residual_within H (xI ! i) (xJ ! j) tolerance)
                            [0..<length xJ]))
               [0..<length xI])"

definition descriptors_within :: "real \<Rightarrow> real \<Rightarrow> double \<Rightarrow> bool" where
  "descriptors_within a b ratio =
     (case ratio of Finite q \<Rightarrow> (a - b) * (a - b) \<le> q | PosInf \<Rightarrow> True | _ \<Rightarrow> False)"

definition descriptor_matcher ::
  "Mat3 \<Rightarrow> IntrinsicBase option \<Rightarrow> (nat \<times> real list Regions) list
    \<Rightarrow> IntrinsicBase option \<Rightarrow> (nat \<times> real list Regions) list
    \<Rightarrow> double \<Rightarrow> double \<Rightarrow> nat MatchesPerDescType \<Rightarrow> nat MatchesPerDescType" where
  "descriptor_matcher H cam_I regions_I cam_J regions_J tolerance ratio matches =
     (let xI = concat (map (\<lambda>e. map (ud_column cam_I) (GetRegionsPositions (snd e))) regions_I);
          xJ = concat (map (\<lambda>e. map (ud_column cam_J) (GetRegionsPositions (snd e))) regions_J);
          dI = concat (map (\<lambda>e. Descriptors (snd e)) regions_I);
          dJ = concat (map (\<lambda>e. Descriptors (snd e)) regions_J)
      in AList.update 0
           (filter (\<lambda>m. descriptors_within (dI ! fst m) (dJ ! snd m) ratio)
              (position_matcher H xI xJ tolerance))
           matches)"

definition guided_collaborators :: "(nat, real list) collaborators" where
  "guided_collaborators =
     \<lparr>MINIMUM_SAMPLES = 4,
      OPENMVG_MINIMUM_SAMPLES_COEF = 5 / 2,
      MatchesPairToMat = (\<lambda>pairIndex putative sfmData regionsPerView descTypes. ([], [])),
      ACRANSAC = (\<lambda>kern nIter model precision. ([], model, (PosInf, PosInf))),
      copyInlierMatches = (\<lambda>inliers putative descTypes out. out),
      GuidedMatching = position_matcher,
      GuidedMatching_regions = descriptor_matcher,
      getDeduplicated = (\<lambda>matches leftFeat rightFeat.
         dedup_loop (decorate leftFeat rightFeat) [] matches)\<rparr>"

text \<open>
  Two features of image 0 at the same pixel, two features of image 1 of which the first
  lies at squared distance 4 from the undistorted, transformed features of image 0; a
  filter that holds the model \<open>diag(2, 2, 1)\<close> and the robust precision 3.
\<close>

definition guided_regions_I :: "real list Regions" where
  "guided_regions_I =
     \<lparr>GetRegionsPositions = [\<lparr>feat_x = 1, feat_y = 1\<rparr>, \<lparr>feat_x = 1, feat_y = 1\<rparr>],
      Descriptors = [11 / 5, 1]\<rparr>"

definition guided_regions_J :: "real list Regions" where
  "guided_regions_J =
     \<lparr>GetRegionsPositions = [\<lparr>feat_x = 6, feat_y = 2\<rparr>, \<lparr>feat_x = 100, feat_y = 100\<rparr>],
      Descriptors = [3 / 2, 0]\<rparr>"

definition guided_regions :: "(nat, real list) RegionsPerView" where
  "guided_regions =
     \<lparr>getCommonDescTypes = (\<lambda>pair. if pair = (0, 1) then [0] else []),
      getRegions = (\<lambda>view descType. if view = 0 then guided_regions_I else guided_regions_J),
      getAllRegions = (\<lambda>view. [(0, if view = 0 then guided_regions_I else guided_regions_J)])\<rparr>"

definition guided_filter :: GeometricFilter_HMatrix_AC where
  "guided_filter =
     \<lparr>m_dPrecision = infinity, m_stIteration = 1024,
      m_H = [[2, 0, 0], [0, 2, 0], [0, 0, 1]], m_dPrecision_robust = Finite 3\<rparr>"

definition guided_run :: "double \<Rightarrow> nat guided" where
  "guided_run dDistanceRatio =
     Geometry_guided_matching guided_collaborators guided_filter example_scene guided_regions
       (0, 1) dDistanceRatio [(5, [(9, 9)])]"

lemmas example_defs =
  example_collaborators_def example_scene_def example_regions_def example_putative_def
  example_filter_def GeometricFilter_HMatrix_AC_new_def example_scene_one_view_def

lemmas projection_defs =
  example_projection_run_def example_projection_collaborators_def
  example_two_type_regions_def example_two_type_putative_def

lemmas guided_defs =
  guided_collaborators_def guided_regions_def guided_regions_I_def guided_regions_J_def
  guided_filter_def position_matcher_def descriptor_matcher_def residual_within_def
  descriptors_within_def ud_column_def coords_def decorate_def

section \<open>Minimum support of a successful estimation\<close>

text \<open>
  C3. A call of \<open>Robust_estimation\<close> that returns true has an inlier count strictly above
  \<open>MINIMUM_SAMPLES\<close> times \<open>OPENMVG_MINIMUM_SAMPLES_COEF\<close>; with the values 4 and 2.5 of
  the four-point homography solver that is more than 10 inliers. A call that does not
  return true leaves the inlier vector and the output empty. When the call gets as far as
  the estimator, it returns true exactly if the estimator's inlier count exceeds the
  bound.
\<close>

theorem Robust_estimation_minimum_support:
  "(est_outcome (Robust_estimation env this sfmData regionsPerView pairIndex putative out0)
      = Inr True \<longrightarrow>
      real (MINIMUM_SAMPLES env) * OPENMVG_MINIMUM_SAMPLES_COEF env
        < real (length (est_inliers
            (Robust_estimation env this sfmData regionsPerView pairIndex putative out0)))
      \<and> (MINIMUM_SAMPLES env = 4 \<and> OPENMVG_MINIMUM_SAMPLES_COEF env = 5 / 2 \<longrightarrow>
           10 < length (est_inliers
             (Robust_estimation env this sfmData regionsPerView pairIndex putative out0))))
   \<and> (est_outcome (Robust_estimation env this sfmData regionsPerView pairIndex putative out0)
        \<noteq> Inr True \<longrightarrow>
        est_inliers (Robust_estimation env this sfmData regionsPerView pairIndex putative out0)
          = []
        \<and> est_geometricInliersPerType
            (Robust_estimation env this sfmData regionsPerView pairIndex putative out0) = [])
   \<and> (\<forall>view_I view_J xI xJ inliers H ACRansacOut.
        getCommonDescTypes regionsPerView pairIndex \<noteq> []
        \<and> views sfmData (fst pairIndex) = Some view_I
        \<and> views sfmData (snd pairIndex) = Some view_J
        \<and> MatchesPairToMat env pairIndex putative sfmData regionsPerView
             (getCommonDescTypes regionsPerView pairIndex) = (xI, xJ)
        \<and> ACRANSAC env
             \<lparr>kernel_xI = xI, kernel_wI = ui_width view_I, kernel_hI = ui_height view_I,
              kernel_xJ = xJ, kernel_wJ = ui_width view_J, kernel_hJ = ui_height view_J,
              bPointToLine = False\<rparr>
             (m_stIteration this) (m_H this) (Square (m_dPrecision this))
            = (inliers, H, ACRansacOut) \<longrightarrow>
        est_outcome (Robust_estimation env this sfmData regionsPerView pairIndex putative out0)
          = Inr (real (MINIMUM_SAMPLES env) * OPENMVG_MINIMUM_SAMPLES_COEF env
                   < real (length inliers))
        \<and> (real (MINIMUM_SAMPLES env) * OPENMVG_MINIMUM_SAMPLES_COEF env
              < real (length inliers) \<longrightarrow>
             est_inliers
               (Robust_estimation env this sfmData regionsPerView pairIndex putative out0)
               = inliers))"
  by (auto simp: Robust_estimation_def Let_def split: prod.splits option.splits)

text \<open>
  Eleven putative matches, all inliers: the call returns true with 11 inliers. Ten putative
  matches, all inliers: the call returns false and leaves nothing.
\<close>

theorem Robust_estimation_minimum_support_witness:
  "est_outcome (Robust_estimation example_collaborators example_filter example_scene
      example_regions (0, 1) (example_putative 11) []) = Inr True
   \<and> 10 < length (est_inliers (Robust_estimation example_collaborators example_filter
      example_scene example_regions (0, 1) (example_putative 11) []))
   \<and> est_outcome (Robust_estimation example_collaborators example_filter example_scene
      example_regions (0, 1) (example_putative 10) []) = Inr False
   \<and> est_inliers (Robust_estimation example_collaborators example_filter example_scene
      example_regions (0, 1) (example_putative 10) []) = []
   \<and> est_geometricInliersPerType (Robust_estimation example_collaborators example_filter
      example_scene example_regions (0, 1) (example_putative 10) []) = []"
proof -
  have success: "est_outcome (Robust_estimation example_collaborators example_filter
      example_scene example_regions (0, 1) (example_putative 11) []) = Inr True"
    by (simp add: Robust_estimation_def example_defs Let_def)
  have failure: "est_outcome (Robust_estimation example_collaborators example_filter
      example_scene example_regions (0, 1) (example_putative 10) []) = Inr False"
    by (simp add: Robust_estimation_def example_defs Let_def)
  have constants: "MINIMUM_SAMPLES example_collaborators = 4
      \<and> OPENMVG_MINIMUM_SAMPLES_COEF example_collaborators = 5 / 2"
    by (simp add: example_collaborators_def)
  from Robust_estimation_minimum_support [of example_collaborators example_filter
      example_scene example_regions "(0, 1)" "example_putative 11" "[]"]
    Robust_estimation_minimum_support [of example_collaborators example_filter
      example_scene example_regions "(0, 1)" "example_putative 10" "[]"]
    success failure constants
  show ?thesis by simp
qed

section \<open>What a failed estimation leaves in the object\<close>

text \<open>
  C1. A call of \<open>Robust_estimation\<close> that ends before it reaches the estimator (no common
  descriptor type, a view that is not in the scene) leaves the object as it was. A call
  that fails because the estimator returned too few inliers leaves the object as it was
  except for \<open>m_H\<close>, which holds what the estimator left in the slot \<^verbatim>\<open>&m_H\<close> it was handed
  before the inlier test: the function neither writes \<open>m_H\<close> itself nor restores it.
\<close>

theorem Robust_estimation_failure_model_slot:
  "(getCommonDescTypes regionsPerView pairIndex = []
      \<or> views sfmData (fst pairIndex) = None \<or> views sfmData (snd pairIndex) = None \<longrightarrow>
      est_this (Robust_estimation env this sfmData regionsPerView pairIndex putative out0) = this)
   \<and> (\<forall>view_I view_J xI xJ inliers H ACRansacOut.
        getCommonDescTypes regionsPerView pairIndex \<noteq> []
        \<and> views sfmData (fst pairIndex) = Some view_I
        \<and> views sfmData (snd pairIndex) = Some view_J
        \<and> MatchesPairToMat env pairIndex putative sfmData regionsPerView
             (getCommonDescTypes regionsPerView pairIndex) = (xI, xJ)
        \<and> ACRANSAC env
             \<lparr>kernel_xI = xI, kernel_wI = ui_width view_I, kernel_hI = ui_height view_I,
              kernel_xJ = xJ, kernel_wJ = ui_width view_J, kernel_hJ = ui_height view_J,
              bPointToLine = False\<rparr>
             (m_stIteration this) (m_H this) (Square (m_dPrecision this))
            = (inliers, H, ACRansacOut)
        \<and> real (length inliers)
             \<le> real (MINIMUM_SAMPLES env) * OPENMVG_MINIMUM_SAMPLES_COEF env \<longrightarrow>
        est_outcome (Robust_estimation env this sfmData regionsPerView pairIndex putative out0)
          = Inr False
        \<and> est_this (Robust_estimation env this sfmData regionsPerView pairIndex putative out0)
          = this\<lparr>m_H := H\<rparr>)"
  by (auto simp: Robust_estimation_def Let_def split: prod.splits option.splits)

text \<open>
  A pair without common descriptor types leaves the filter as constructed. Ten putative
  matches, all inliers of an estimator that writes the model \<open>diag(2, 2, 1)\<close>: the call
  returns false and the filter holds that model.
\<close>

theorem Robust_estimation_failure_model_slot_witness:
  "getCommonDescTypes example_regions (0, 2) = []
   \<and> est_this (Robust_estimation example_collaborators example_filter example_scene
        example_regions (0, 2) (example_putative 10) []) = example_filter
   \<and> est_outcome (Robust_estimation example_collaborators example_filter example_scene
        example_regions (0, 1) (example_putative 10) []) = Inr False
   \<and> est_this (Robust_estimation example_collaborators example_filter example_scene
        example_regions (0, 1) (example_putative 10) [])
       = example_filter\<lparr>m_H := [[2, 0, 0], [0, 2, 0], [0, 0, 1]]\<rparr>"
proof -
  have no_types: "getCommonDescTypes example_regions (0, 2) = []"
    by (simp add: example_regions_def)
  have types: "getCommonDescTypes example_regions (0, 1) \<noteq> []"
    by (simp add: example_regions_def)
  have view_I: "views example_scene (fst (0, 1))
      = Some \<lparr>ui_width = 640, ui_height = 480, id_intrinsic = 0\<rparr>"
    by (simp add: example_scene_def)
  have view_J: "views example_scene (snd (0, 1))
      = Some \<lparr>ui_width = 640, ui_height = 480, id_intrinsic = 7\<rparr>"
    by (simp add: example_scene_def)
  obtain xI xJ where mats: "MatchesPairToMat example_collaborators (0, 1) (example_putative 10)
      example_scene example_regions (getCommonDescTypes example_regions (0, 1)) = (xI, xJ)"
    and width: "length xI = 10"
    by (simp add: example_collaborators_def example_putative_def)
  have estimator: "ACRANSAC example_collaborators
      \<lparr>kernel_xI = xI, kernel_wI = ui_width \<lparr>ui_width = 640, ui_height = 480, id_intrinsic = 0\<rparr>,
       kernel_hI = ui_height \<lparr>ui_width = 640, ui_height = 480, id_intrinsic = 0\<rparr>,
       kernel_xJ = xJ, kernel_wJ = ui_width \<lparr>ui_width = 640, ui_height = 480, id_intrinsic = 7\<rparr>,
       kernel_hJ = ui_height \<lparr>ui_width = 640, ui_height = 480, id_intrinsic = 7\<rparr>,
       bPointToLine = False\<rparr>
      (m_stIteration example_filter) (m_H example_filter) (Square (m_dPrecision example_filter))
      = ([0..<10], [[2, 0, 0], [0, 2, 0], [0, 0, 1]], (Finite 3, Finite (- 1)))"
    by (simp add: example_collaborators_def width)
  have few: "real (length [0..<10])
      \<le> real (MINIMUM_SAMPLES example_collaborators)
          * OPENMVG_MINIMUM_SAMPLES_COEF example_collaborators"
    by (simp add: example_collaborators_def)
  note frame = Robust_estimation_failure_model_slot [of example_regions _ example_scene
      example_collaborators example_filter]
  from frame [of "(0, 2)" "example_putative 10" "[]"] no_types
  have early: "est_this (Robust_estimation example_collaborators example_filter example_scene
        example_regions (0, 2) (example_putative 10) []) = example_filter"
    by blast
  from frame [of "(0, 1)" "example_putative 10" "[]"] types view_I view_J mats estimator few
  have late: "est_outcome (Robust_estimation example_collaborators example_filter example_scene
        example_regions (0, 1) (example_putative 10) []) = Inr False
     \<and> est_this (Robust_estimation example_collaborators example_filter example_scene
        example_regions (0, 1) (example_putative 10) [])
       = example_filter\<lparr>m_H := [[2, 0, 0], [0, 2, 0], [0, 0, 1]]\<rparr>"
    by blast
  from no_types early late show ?thesis by blast
qed

text \<open>
  The same failed call: \<open>m_H\<close> was the identity before it and is not afterwards.
\<close>

theorem Robust_estimation_failure_model_slot_counterexample:
  "est_outcome (Robust_estimation example_collaborators example_filter example_scene
        example_regions (0, 1) (example_putative 10) []) = Inr False
   \<and> m_H example_filter = [[1, 0, 0], [0, 1, 0], [0, 0, 1]]
   \<and> m_H (est_this (Robust_estimation example_collaborators example_filter example_scene
        example_regions (0, 1) (example_putative 10) [])) = [[2, 0, 0], [0, 2, 0], [0, 0, 1]]
   \<and> m_H (est_this (Robust_estimation example_collaborators example_filter example_scene
        example_regions (0, 1) (example_putative 10) [])) \<noteq> m_H example_filter"
  by (simp add: Robust_estimation_def example_defs Mat3_Identity_def Let_def)

section \<open>Guided matching before any estimation\<close>

text \<open>
  C2. A call of \<open>Geometry_guided_matching\<close> made while \<open>m_dPrecision_robust\<close> is infinity
  changes neither the object nor the output parameter, and returns whether the output
  parameter, as the caller passed it, holds a match. With an output that is empty at entry
  the call returns false and the output stays empty.
\<close>

theorem Geometry_guided_matching_unbounded:
  assumes "m_dPrecision_robust this = infinity"
  shows "gm_this (Geometry_guided_matching env this sfmData regionsPerView imageIdsPair
                    dDistanceRatio matches) = this
     \<and> gm_matches (Geometry_guided_matching env this sfmData regionsPerView imageIdsPair
                    dDistanceRatio matches) = matches
     \<and> gm_outcome (Geometry_guided_matching env this sfmData regionsPerView imageIdsPair
                    dDistanceRatio matches) = Inr (getNbAllMatches matches \<noteq> 0)
     \<and> (matches = [] \<longrightarrow>
          gm_outcome (Geometry_guided_matching env this sfmData regionsPerView imageIdsPair
                    dDistanceRatio matches) = Inr False)"
  using assms by (simp add: Geometry_guided_matching_def getNbAllMatches_def)

theorem Geometry_guided_matching_unbounded_witness:
  "m_dPrecision_robust example_filter = infinity
   \<and> gm_this (Geometry_guided_matching example_collaborators example_filter example_scene
        example_regions (0, 1) (Finite (- 1)) []) = example_filter
   \<and> gm_matches (Geometry_guided_matching example_collaborators example_filter example_scene
        example_regions (0, 1) (Finite (- 1)) []) = []
   \<and> gm_outcome (Geometry_guided_matching example_collaborators example_filter example_scene
        example_regions (0, 1) (Finite (- 1)) []) = Inr False"
proof -
  have unbounded: "m_dPrecision_robust example_filter = infinity"
    by (simp add: example_filter_def GeometricFilter_HMatrix_AC_new_def)
  from Geometry_guided_matching_unbounded [OF unbounded, of example_collaborators
      example_scene example_regions "(0, 1)" "Finite (- 1)" "[]"] unbounded
  show ?thesis by (simp add: getNbAllMatches_def)
qed

text \<open>
  The same call with an output parameter that already holds one match: the precision is
  infinity, and the call returns true with that match still in the output.
\<close>

theorem Geometry_guided_matching_unbounded_counterexample:
  "m_dPrecision_robust example_filter = infinity
   \<and> gm_outcome (Geometry_guided_matching example_collaborators example_filter example_scene
        example_regions (0, 1) (Finite (- 1)) [(0, [(3, 4)])]) = Inr True
   \<and> gm_matches (Geometry_guided_matching example_collaborators example_filter example_scene
        example_regions (0, 1) (Finite (- 1)) [(0, [(3, 4)])]) = [(0, [(3, 4)])]"
  by (simp add: Geometry_guided_matching_def example_filter_def
      GeometricFilter_HMatrix_AC_new_def getNbAllMatches_def)

section \<open>Empty input\<close>

text \<open>
  C5. If the pair has no common descriptor type, \<open>Robust_estimation\<close> returns false without
  raising and leaves the output empty. If there are no putative matches, both views of the
  pair being in the scene container as the interface requires, it returns false without
  raising and leaves the output empty; the callees enter through what the data model says
  of them (the point matrices have no more columns than there are putative matches, the
  inliers are no more than the columns) and the constant through its sign. On every path
  that does not return true the output is empty whatever it held before the call.
\<close>

theorem Robust_estimation_input_empty:
  "(getCommonDescTypes regionsPerView pairIndex = [] \<longrightarrow>
      est_outcome (Robust_estimation env this sfmData regionsPerView pairIndex putative out0)
        = Inr False
      \<and> est_geometricInliersPerType
          (Robust_estimation env this sfmData regionsPerView pairIndex putative out0) = [])
   \<and> (getNbAllMatches putative = 0
       \<and> views sfmData (fst pairIndex) \<noteq> None \<and> views sfmData (snd pairIndex) \<noteq> None
       \<and> length (fst (MatchesPairToMat env pairIndex putative sfmData regionsPerView
                        (getCommonDescTypes regionsPerView pairIndex)))
           \<le> getNbAllMatches putative
       \<and> (\<forall>kern nIter model precision.
             length (fst (ACRANSAC env kern nIter model precision)) \<le> length (kernel_xI kern))
       \<and> 0 \<le> OPENMVG_MINIMUM_SAMPLES_COEF env \<longrightarrow>
      est_outcome (Robust_estimation env this sfmData regionsPerView pairIndex putative out0)
        = Inr False
      \<and> est_geometricInliersPerType
          (Robust_estimation env this sfmData regionsPerView pairIndex putative out0) = [])
   \<and> (est_outcome (Robust_estimation env this sfmData regionsPerView pairIndex putative out0)
        \<noteq> Inr True \<longrightarrow>
      est_geometricInliersPerType
        (Robust_estimation env this sfmData regionsPerView pairIndex putative out0) = [])"
proof -
  let ?r = "Robust_estimation env this sfmData regionsPerView pairIndex putative out0"
  have zero: "est_outcome ?r = Inr False"
    if nb: "getNbAllMatches putative = 0"
      and vI: "views sfmData (fst pairIndex) \<noteq> None"
      and vJ: "views sfmData (snd pairIndex) \<noteq> None"
      and width: "length (fst (MatchesPairToMat env pairIndex putative sfmData regionsPerView
                        (getCommonDescTypes regionsPerView pairIndex))) \<le> getNbAllMatches putative"
      and inl: "\<And>kern nIter model precision.
             length (fst (ACRANSAC env kern nIter model precision)) \<le> length (kernel_xI kern)"
      and coef: "0 \<le> OPENMVG_MINIMUM_SAMPLES_COEF env"
  proof -
    obtain view_I view_J where v: "views sfmData (fst pairIndex) = Some view_I"
      "views sfmData (snd pairIndex) = Some view_J"
      using vI vJ by auto
    obtain xI xJ where m: "MatchesPairToMat env pairIndex putative sfmData regionsPerView
                        (getCommonDescTypes regionsPerView pairIndex) = (xI, xJ)"
      by (cases "MatchesPairToMat env pairIndex putative sfmData regionsPerView
                        (getCommonDescTypes regionsPerView pairIndex)") auto
    from width m nb have xI: "xI = []" by simp
    let ?k = "\<lparr>kernel_xI = xI, kernel_wI = ui_width view_I, kernel_hI = ui_height view_I,
              kernel_xJ = xJ, kernel_wJ = ui_width view_J, kernel_hJ = ui_height view_J,
              bPointToLine = False\<rparr>"
    obtain inliers H out where a: "ACRANSAC env ?k (m_stIteration this) (m_H this)
        (Square (m_dPrecision this)) = (inliers, H, out)"
      by (metis prod_cases3)
    from inl [of ?k "m_stIteration this" "m_H this" "Square (m_dPrecision this)"] a xI
    have "inliers = []" by simp
    with v m a coef show ?thesis
      by (simp add: Robust_estimation_def Let_def)
  qed
  have empty: "est_geometricInliersPerType ?r = []" if "est_outcome ?r \<noteq> Inr True"
    using that
    by (auto simp: Robust_estimation_def Let_def split: prod.splits option.splits if_splits)
  have none: "est_outcome ?r = Inr False" if "getCommonDescTypes regionsPerView pairIndex = []"
    using that by (simp add: Robust_estimation_def Let_def)
  show ?thesis
    using zero empty none by (metis Inr_inject)
qed

text \<open>
  A pair without common descriptor types, and a pair with common types and no putative
  match, both with an output parameter that holds a match at entry.
\<close>

theorem Robust_estimation_input_empty_witness:
  "getCommonDescTypes example_regions (0, 2) = []
   \<and> est_outcome (Robust_estimation example_collaborators example_filter example_scene
        example_regions (0, 2) (example_putative 3) [(0, [(1, 1)])]) = Inr False
   \<and> est_geometricInliersPerType (Robust_estimation example_collaborators example_filter
        example_scene example_regions (0, 2) (example_putative 3) [(0, [(1, 1)])]) = []
   \<and> getNbAllMatches ([] :: nat MatchesPerDescType) = 0
   \<and> est_outcome (Robust_estimation example_collaborators example_filter example_scene
        example_regions (0, 1) [] [(0, [(1, 1)])]) = Inr False
   \<and> est_geometricInliersPerType (Robust_estimation example_collaborators example_filter
        example_scene example_regions (0, 1) [] [(0, [(1, 1)])]) = []"
proof -
  have no_types: "getCommonDescTypes example_regions (0, 2) = []"
    by (simp add: example_regions_def)
  have no_matches: "getNbAllMatches ([] :: nat MatchesPerDescType) = 0"
    by (simp add: getNbAllMatches_def)
  have scene: "views example_scene (fst (0, 1)) \<noteq> None \<and> views example_scene (snd (0, 1)) \<noteq> None"
    by (simp add: example_scene_def)
  have width: "length (fst (MatchesPairToMat example_collaborators (0, 1) [] example_scene
      example_regions (getCommonDescTypes example_regions (0, 1))))
        \<le> getNbAllMatches ([] :: nat MatchesPerDescType)"
    by (simp add: example_collaborators_def)
  have in_range: "\<forall>kern nIter model precision.
      length (fst (ACRANSAC example_collaborators kern nIter model precision))
        \<le> length (kernel_xI kern)"
    by (simp add: example_collaborators_def)
  have coef: "0 \<le> OPENMVG_MINIMUM_SAMPLES_COEF example_collaborators"
    by (simp add: example_collaborators_def)
  from Robust_estimation_input_empty [of example_regions "(0, 2)" example_collaborators
      example_filter example_scene "example_putative 3" "[(0, [(1, 1)])]"]
    Robust_estimation_input_empty [of example_regions "(0, 1)" example_collaborators
      example_filter example_scene "[]" "[(0, [(1, 1)])]"]
    no_types no_matches scene width in_range coef
  show ?thesis by blast
qed

text \<open>
  A pair that names a view the scene does not hold is outside the interface: the lookup
  \<^verbatim>\<open>GetViews().at()\<close> raises, whatever the matches.
\<close>

lemma Robust_estimation_view_lookup_raises:
  "est_outcome (Robust_estimation example_collaborators example_filter
        example_scene_one_view example_regions (0, 1) [] []) = Inl out_of_range"
  by (simp add: Robust_estimation_def example_defs Let_def)

section \<open>The robust precision across calls\<close>

text \<open>
  C10. A call of \<open>Robust_estimation\<close> that does not return true leaves \<open>m_dPrecision_robust\<close>
  as it was. Hence, on an object left by a successful estimation that reported a precision
  other than infinity, a later call that returns false leaves that precision in place, it
  is still not infinity, and \<open>Geometry_guided_matching\<close> on the object enters the guarded
  block, which reads that precision.
\<close>

theorem Robust_estimation_stale_precision:
  "(est_outcome (Robust_estimation env this sfmData regionsPerView pairIndex putative out0)
      \<noteq> Inr True \<longrightarrow>
      m_dPrecision_robust
        (est_this (Robust_estimation env this sfmData regionsPerView pairIndex putative out0))
        = m_dPrecision_robust this)
   \<and> (est_outcome (Robust_estimation env0 this0 sfmData0 regionsPerView0 pairIndex0 putative0
         out00) = Inr True
      \<and> this = est_this (Robust_estimation env0 this0 sfmData0 regionsPerView0 pairIndex0
         putative0 out00)
      \<and> m_dPrecision_robust this \<noteq> infinity
      \<and> est_outcome (Robust_estimation env this sfmData regionsPerView pairIndex putative out0)
         = Inr False \<longrightarrow>
        m_dPrecision_robust
          (est_this (Robust_estimation env this sfmData regionsPerView pairIndex putative out0))
          = m_dPrecision_robust this
        \<and> m_dPrecision_robust
            (est_this (Robust_estimation env this sfmData regionsPerView pairIndex putative out0))
            \<noteq> infinity
        \<and> Geometry_guided_matching env1
             (est_this (Robust_estimation env this sfmData regionsPerView pairIndex putative out0))
             sfmData1 regionsPerView1 imageIdsPair dDistanceRatio matches
           = guided_block env1
               (est_this (Robust_estimation env this sfmData regionsPerView pairIndex putative
                  out0))
               sfmData1 regionsPerView1 imageIdsPair dDistanceRatio matches)"
proof -
  have keep: "m_dPrecision_robust
        (est_this (Robust_estimation env this sfmData regionsPerView pairIndex putative out0))
        = m_dPrecision_robust this"
    if "est_outcome (Robust_estimation env this sfmData regionsPerView pairIndex putative out0)
          \<noteq> Inr True"
    using that
    by (auto simp: Robust_estimation_def Let_def split: prod.splits option.splits if_splits)
  show ?thesis
    using keep by (auto simp: Geometry_guided_matching_def)
qed

text \<open>
  The first run succeeds and reports the precision 3; the second run, on the object the
  first left, fails; the precision is still 3 and guided matching runs its block.
\<close>

theorem Robust_estimation_stale_precision_witness:
  "est_outcome example_first_run = Inr True
   \<and> m_dPrecision_robust (est_this example_first_run) = Finite 3
   \<and> est_outcome example_second_run = Inr False
   \<and> m_dPrecision_robust (est_this example_second_run) = Finite 3
   \<and> Geometry_guided_matching example_collaborators (est_this example_second_run)
        example_scene example_regions (0, 1) (Finite (- 1)) []
      = guided_block example_collaborators (est_this example_second_run)
          example_scene example_regions (0, 1) (Finite (- 1)) []"
proof -
  have first: "est_outcome example_first_run = Inr True"
    by (simp add: example_first_run_def Robust_estimation_def example_defs Let_def)
  have precision: "m_dPrecision_robust (est_this example_first_run) = Finite 3"
    by (simp add: example_first_run_def Robust_estimation_def example_defs Let_def)
  have second: "est_outcome example_second_run = Inr False"
    by (simp add: example_second_run_def Robust_estimation_def example_defs Let_def)
  have finite: "m_dPrecision_robust (est_this example_first_run) \<noteq> infinity"
    by (simp add: precision infinity_def)
  note stale = Robust_estimation_stale_precision [of example_collaborators
      "est_this example_first_run" example_scene example_regions "(0, 1)"
      "example_putative 10" "[]"
      example_collaborators example_filter example_scene example_regions "(0, 1)"
      "example_putative 11" "[]"
      example_collaborators example_scene example_regions "(0, 1)" "Finite (- 1)" "[]",
      folded example_first_run_def example_second_run_def]
  from stale first precision second finite
  show ?thesis by simp
qed

section \<open>Feature positions as matrix columns\<close>

lemma fill_loop_columns:
  "i + length feats \<le> length m \<Longrightarrow>
   fill_loop col feats i m = Some (take i m @ map col feats @ drop (i + length feats) m)"
proof (induction feats arbitrary: i m)
  case Nil
  then show ?case by simp
next
  case (Cons f fs)
  from Cons.prems have lt: "i < length m" by simp
  from Cons.prems have "Suc i + length fs \<le> length (m[i := col f])" by simp
  from Cons.IH [OF this] lt show ?case
    by (simp add: take_Suc_conv_app_nth)
qed

lemma fillMatrices_ud_column:
  "length vec_feats \<le> length m \<Longrightarrow>
   fillMatricesWithUndistortFeatures cam vec_feats m =
     Some (map (ud_column cam) vec_feats @ drop (length vec_feats) m)"
  by (cases cam)
    (simp_all add: fillMatricesWithUndistortFeatures_def fill_loop_columns ud_column_def)

lemma createMatrices_ud_column:
  "createMatricesWithUndistortFeatures cam vec_feats = Some (map (ud_column cam) vec_feats)"
  by (simp add: createMatricesWithUndistortFeatures_def fillMatrices_ud_column)

text \<open>
  C6. On a matrix with at least as many columns as there are features,
  \<open>fillMatricesWithUndistortFeatures\<close> with a null camera pointer, or with a camera that
  reports itself invalid, writes the raw coordinates of the features into the leading
  columns, one column per feature in input order, and leaves the other columns alone; with
  a valid camera each of these columns is \<open>get_ud_pixel\<close> of the feature's coordinates.
  \<open>createMatricesWithUndistortFeatures\<close>, which sizes the matrix itself, yields exactly these
  columns.
\<close>

theorem fillMatricesWithUndistortFeatures_columns:
  assumes "length vec_feats \<le> length m"
  shows "(cam = None \<or> (\<exists>c. cam = Some c \<and> \<not> isValid c) \<longrightarrow>
            fillMatricesWithUndistortFeatures cam vec_feats m =
              Some (map coords vec_feats @ drop (length vec_feats) m)
            \<and> createMatricesWithUndistortFeatures cam vec_feats = Some (map coords vec_feats))
       \<and> (\<forall>c. cam = Some c \<and> isValid c \<longrightarrow>
            fillMatricesWithUndistortFeatures cam vec_feats m =
              Some (map (\<lambda>f. get_ud_pixel c (feat_x f, feat_y f)) vec_feats
                    @ drop (length vec_feats) m)
            \<and> createMatricesWithUndistortFeatures cam vec_feats =
                Some (map (\<lambda>f. get_ud_pixel c (feat_x f, feat_y f)) vec_feats))"
  using assms
  by (auto simp: fillMatricesWithUndistortFeatures_def createMatricesWithUndistortFeatures_def
        fill_loop_columns)

text \<open>
  Two features into a matrix of three columns: without a camera and with an invalid camera
  the columns are the raw pixels, with a valid camera the shifted ones; the third column
  is untouched.
\<close>

theorem fillMatricesWithUndistortFeatures_columns_witness:
  "length example_features \<le> length [(7, 7), (8, 8), (9, 9 :: real)]
   \<and> fillMatricesWithUndistortFeatures None example_features [(7, 7), (8, 8), (9, 9)]
       = Some [(1, 2), (1, 2), (9, 9)]
   \<and> fillMatricesWithUndistortFeatures (Some (example_camera False)) example_features
         [(7, 7), (8, 8), (9, 9)]
       = Some [(1, 2), (1, 2), (9, 9)]
   \<and> fillMatricesWithUndistortFeatures (Some (example_camera True)) example_features
         [(7, 7), (8, 8), (9, 9)]
       = Some [(2, 2), (2, 2), (9, 9)]
   \<and> createMatricesWithUndistortFeatures (Some (example_camera True)) example_features
       = Some [(2, 2), (2, 2)]"
proof -
  have room: "length example_features \<le> length [(7, 7), (8, 8), (9, 9 :: real)]"
    by (simp add: example_features_def)
  have invalid: "\<not> isValid (example_camera False)" and valid: "isValid (example_camera True)"
    by (simp_all add: example_camera_def)
  from fillMatricesWithUndistortFeatures_columns [OF room, of None]
    fillMatricesWithUndistortFeatures_columns [OF room, of "Some (example_camera False)"]
    fillMatricesWithUndistortFeatures_columns [OF room, of "Some (example_camera True)"]
    room invalid valid
  show ?thesis
    by (simp add: example_features_def example_camera_def coords_def)
qed

section \<open>The loop of the geometry-only mode\<close>

lemma guided_positions_step_Some:
  "guided_positions_step env this cam_I cam_J rpv vI vJ d =
     Some (getDeduplicated env
             (GuidedMatching env (m_H this)
                (map (ud_column cam_I) (GetRegionsPositions (getRegions rpv vI d)))
                (map (ud_column cam_J) (GetRegionsPositions (getRegions rpv vJ d)))
                (Square (m_dPrecision_robust this)))
             (GetRegionsPositions (getRegions rpv vI d))
             (GetRegionsPositions (getRegions rpv vJ d)))"
  by (simp add: guided_positions_step_def createMatrices_ud_column Let_def)

lemma guided_positions_loop_Inr:
  "\<exists>matches1. guided_positions_loop env this cam_I cam_J rpv vI vJ ds matches = Inr matches1
     \<and> (\<forall>d. map_of matches1 d =
           (if d \<in> set ds then guided_positions_step env this cam_I cam_J rpv vI vJ d
            else map_of matches d))"
proof (induction ds arbitrary: matches)
  case Nil
  then show ?case by simp
next
  case (Cons a ds)
  obtain lm where lm: "guided_positions_step env this cam_I cam_J rpv vI vJ a = Some lm"
    by (simp add: guided_positions_step_Some)
  from Cons.IH [of "AList.update a lm matches"] lm show ?case
    by (auto simp: update_conv')
qed

section \<open>Deduplication is idempotent\<close>

lemma dedup_loop_subset: "set (dedup_loop key seen ms) \<subseteq> set ms"
  by (induction ms arbitrary: seen) auto

lemma dedup_loop_idem:
  "dedup_loop key seen (dedup_loop key seen ms) = dedup_loop key seen ms"
  by (induction ms arbitrary: seen) auto

text \<open>
  C8. Running the deduplication pass of the specification on its own result, against the
  same two feature lists, gives that result again; when the pass cannot run on the input
  it yields nothing either way.
\<close>

theorem getDeduplicated_idempotent:
  "Option.bind (getDeduplicated_spec vec_matches leftFeat rightFeat)
     (\<lambda>deduplicated. getDeduplicated_spec deduplicated leftFeat rightFeat)
   = getDeduplicated_spec vec_matches leftFeat rightFeat"
  using dedup_loop_subset [of "decorate leftFeat rightFeat" "[]" vec_matches]
  by (auto simp: getDeduplicated_spec_def dedup_loop_idem)

text \<open>
  Three matches between two features that sit at the same pixel: one pass keeps the first
  match, and a second pass keeps it again.
\<close>

theorem getDeduplicated_idempotent_witness:
  "getDeduplicated_spec [(0, 0), (1, 1), (0, 1)] example_features example_features
     = Some [(0, 0)]
   \<and> getDeduplicated_spec [(0, 0)] example_features example_features = Some [(0, 0)]"
proof -
  have once: "getDeduplicated_spec [(0, 0), (1, 1), (0, 1)] example_features example_features
      = Some [(0, 0)]"
    by (simp add: getDeduplicated_spec_def decorate_def example_features_def coords_def)
  from getDeduplicated_idempotent [of "[(0, 0), (1, 1), (0, 1)]" example_features
      example_features] once
  show ?thesis by simp
qed

section \<open>The mode of guided matching\<close>

lemma dedup_loop_unseen:
  "m \<in> set (dedup_loop key seen ms) \<Longrightarrow> key m \<notin> set seen"
proof (induction ms arbitrary: seen)
  case Nil
  then show ?case by simp
next
  case (Cons a ms)
  show ?case
  proof (cases "key a \<in> set seen")
    case True
    with Cons.prems have "m \<in> set (dedup_loop key seen ms)" by simp
    then show ?thesis by (rule Cons.IH)
  next
    case False
    with Cons.prems have "m = a \<or> m \<in> set (dedup_loop key (key a # seen) ms)" by simp
    then show ?thesis
    proof
      assume "m = a"
      with False show ?thesis by simp
    next
      assume "m \<in> set (dedup_loop key (key a # seen) ms)"
      from Cons.IH [OF this] show ?thesis by simp
    qed
  qed
qed

lemma dedup_loop_distinct: "distinct (map key (dedup_loop key seen ms))"
proof (induction ms arbitrary: seen)
  case Nil
  then show ?case by simp
next
  case (Cons a ms)
  have "key a \<notin> key ` set (dedup_loop key (key a # seen) ms)"
  proof
    assume "key a \<in> key ` set (dedup_loop key (key a # seen) ms)"
    then obtain m where m: "m \<in> set (dedup_loop key (key a # seen) ms)"
      and same: "key m = key a"
      by auto
    from dedup_loop_unseen [OF m] same show False by simp
  qed
  with Cons.IH show ?case by simp
qed

lemma dedup_loop_keys:
  "key ` set (dedup_loop key seen ms) \<union> set seen = key ` set ms \<union> set seen"
proof (induction ms arbitrary: seen)
  case Nil
  then show ?case by simp
next
  case (Cons a ms)
  show ?case
  proof (cases "key a \<in> set seen")
    case True
    with Cons.IH [of seen] show ?thesis by auto
  next
    case False
    from Cons.IH [of "key a # seen"]
    have "key ` set (dedup_loop key (key a # seen) ms) \<union> insert (key a) (set seen)
        = key ` set ms \<union> insert (key a) (set seen)"
      by simp
    with False show ?thesis by auto
  qed
qed

text \<open>
  C7. Inside the guarded block (a finite robust precision \<open>p\<close>, a common descriptor type,
  both views in the scene, each camera the entry of the view's intrinsic id if there is one
  and null otherwise) \<open>Geometry_guided_matching\<close> chooses by the sign of \<open>dDistanceRatio\<close>
  alone. A negative ratio: the entry of every common descriptor type \<open>d\<close> is computed from
  the regions of \<open>d\<close> only, by undistorting the positions of both images, matching them
  under \<open>m_H\<close> with the tolerance \<open>p * p\<close> and deduplicating the result against the raw
  positions; entries of other descriptor types stay as they were; and when deduplication
  is the pass of the specification, no two matches of an entry have the same pixel
  coordinates in both images, while every coordinate pair the matcher found is still
  there. A ratio \<open>r\<close> that is zero or positive: the output is the one call of the
  descriptor-aware matcher on all regions of both images, with the tolerance \<open>p * p\<close> and
  the ratio \<open>r * r\<close>; a ratio that is not a number or is infinite takes this branch too.
  In both modes the call returns whether the output holds a match, and the object is
  unchanged.
\<close>

theorem Geometry_guided_matching_mode_by_sign:
  assumes "m_dPrecision_robust this = Finite p"
    and "getCommonDescTypes regionsPerView imageIdsPair \<noteq> []"
    and "views sfmData (fst imageIdsPair) = Some view_I"
    and "views sfmData (snd imageIdsPair) = Some view_J"
    and "cam_I = (case intrinsics sfmData (id_intrinsic view_I) of
                    Some ptr \<Rightarrow> ptr | None \<Rightarrow> None)"
    and "cam_J = (case intrinsics sfmData (id_intrinsic view_J) of
                    Some ptr \<Rightarrow> ptr | None \<Rightarrow> None)"
  shows "((\<exists>r. dDistanceRatio = Finite r \<and> r < 0) \<or> dDistanceRatio = NegInf \<longrightarrow>
           (\<forall>d. map_of (gm_matches (Geometry_guided_matching env this sfmData regionsPerView
                           imageIdsPair dDistanceRatio matches)) d =
                 (if d \<in> set (getCommonDescTypes regionsPerView imageIdsPair)
                  then Some (getDeduplicated env
                         (GuidedMatching env (m_H this)
                            (map (ud_column cam_I)
                               (GetRegionsPositions
                                  (getRegions regionsPerView (fst imageIdsPair) d)))
                            (map (ud_column cam_J)
                               (GetRegionsPositions
                                  (getRegions regionsPerView (snd imageIdsPair) d)))
                            (Finite (p * p)))
                         (GetRegionsPositions (getRegions regionsPerView (fst imageIdsPair) d))
                         (GetRegionsPositions (getRegions regionsPerView (snd imageIdsPair) d)))
                  else map_of matches d))
           \<and> ((\<forall>ms l r. getDeduplicated env ms l r = dedup_loop (decorate l r) [] ms) \<longrightarrow>
                (\<forall>d entry.
                   d \<in> set (getCommonDescTypes regionsPerView imageIdsPair)
                   \<and> map_of (gm_matches (Geometry_guided_matching env this sfmData
                        regionsPerView imageIdsPair dDistanceRatio matches)) d = Some entry
                   \<longrightarrow>
                   distinct (map (decorate
                       (GetRegionsPositions (getRegions regionsPerView (fst imageIdsPair) d))
                       (GetRegionsPositions (getRegions regionsPerView (snd imageIdsPair) d)))
                     entry)
                   \<and> decorate
                       (GetRegionsPositions (getRegions regionsPerView (fst imageIdsPair) d))
                       (GetRegionsPositions (getRegions regionsPerView (snd imageIdsPair) d))
                      ` set entry
                     = decorate
                       (GetRegionsPositions (getRegions regionsPerView (fst imageIdsPair) d))
                       (GetRegionsPositions (getRegions regionsPerView (snd imageIdsPair) d))
                      ` set (GuidedMatching env (m_H this)
                            (map (ud_column cam_I)
                               (GetRegionsPositions
                                  (getRegions regionsPerView (fst imageIdsPair) d)))
                            (map (ud_column cam_J)
                               (GetRegionsPositions
                                  (getRegions regionsPerView (snd imageIdsPair) d)))
                            (Finite (p * p))))))
       \<and> (\<forall>r. dDistanceRatio = Finite r \<and> 0 \<le> r \<longrightarrow>
           gm_matches (Geometry_guided_matching env this sfmData regionsPerView
                         imageIdsPair dDistanceRatio matches) =
             GuidedMatching_regions env (m_H this)
               cam_I (getAllRegions regionsPerView (fst imageIdsPair))
               cam_J (getAllRegions regionsPerView (snd imageIdsPair))
               (Finite (p * p)) (Finite (r * r)) matches)
       \<and> (dDistanceRatio = NaN \<longrightarrow>
           gm_matches (Geometry_guided_matching env this sfmData regionsPerView
                         imageIdsPair dDistanceRatio matches) =
             GuidedMatching_regions env (m_H this)
               cam_I (getAllRegions regionsPerView (fst imageIdsPair))
               cam_J (getAllRegions regionsPerView (snd imageIdsPair))
               (Finite (p * p)) NaN matches)
       \<and> (dDistanceRatio = PosInf \<longrightarrow>
           gm_matches (Geometry_guided_matching env this sfmData regionsPerView
                         imageIdsPair dDistanceRatio matches) =
             GuidedMatching_regions env (m_H this)
               cam_I (getAllRegions regionsPerView (fst imageIdsPair))
               cam_J (getAllRegions regionsPerView (snd imageIdsPair))
               (Finite (p * p)) PosInf matches)
       \<and> gm_outcome (Geometry_guided_matching env this sfmData regionsPerView
                         imageIdsPair dDistanceRatio matches) =
           Inr (getNbAllMatches (gm_matches (Geometry_guided_matching env this sfmData
                  regionsPerView imageIdsPair dDistanceRatio matches)) \<noteq> 0)
       \<and> gm_this (Geometry_guided_matching env this sfmData regionsPerView
                         imageIdsPair dDistanceRatio matches) = this"
proof -
  let ?G = "Geometry_guided_matching env this sfmData regionsPerView imageIdsPair
              dDistanceRatio matches"
  let ?types = "getCommonDescTypes regionsPerView imageIdsPair"
  have guard: "m_dPrecision_robust this \<noteq> infinity"
    using assms(1) by (simp add: infinity_def)
  have cams: "intrinsic_of sfmData view_I = cam_I" "intrinsic_of sfmData view_J = cam_J"
    using assms(5,6) by (simp_all add: intrinsic_of_def)
  have squared: "Square (m_dPrecision_robust this) = Finite (p * p)"
    using assms(1) by simp
  obtain matches1 where
    loop: "guided_positions_loop env this cam_I cam_J regionsPerView (fst imageIdsPair)
             (snd imageIdsPair) ?types matches = Inr matches1"
    and entries: "\<And>d. map_of matches1 d =
           (if d \<in> set ?types
            then guided_positions_step env this cam_I cam_J regionsPerView (fst imageIdsPair)
                   (snd imageIdsPair) d
            else map_of matches d)"
    using guided_positions_loop_Inr by blast
  have geometry: "gm_matches ?G = matches1" if "less_zero dDistanceRatio"
    using that guard assms(2,3,4) cams loop
    by (simp add: Geometry_guided_matching_def guided_block_def Let_def)
  have descriptors: "gm_matches ?G =
      GuidedMatching_regions env (m_H this)
        cam_I (getAllRegions regionsPerView (fst imageIdsPair))
        cam_J (getAllRegions regionsPerView (snd imageIdsPair))
        (Finite (p * p)) (Square dDistanceRatio) matches" if "\<not> less_zero dDistanceRatio"
    using that guard assms(2,3,4) cams squared
    by (simp add: Geometry_guided_matching_def guided_block_def Let_def)
  have returned: "gm_outcome ?G = Inr (getNbAllMatches (gm_matches ?G) \<noteq> 0)"
    and unchanged: "gm_this ?G = this"
    using guard assms(2,3,4) cams loop
    by (simp_all add: Geometry_guided_matching_def guided_block_def Let_def)
  have negative: "less_zero dDistanceRatio"
    if "(\<exists>r. dDistanceRatio = Finite r \<and> r < 0) \<or> dDistanceRatio = NegInf"
    using that by auto
  have step: "map_of (gm_matches ?G) d =
      (if d \<in> set ?types
       then Some (getDeduplicated env
              (GuidedMatching env (m_H this)
                 (map (ud_column cam_I)
                    (GetRegionsPositions (getRegions regionsPerView (fst imageIdsPair) d)))
                 (map (ud_column cam_J)
                    (GetRegionsPositions (getRegions regionsPerView (snd imageIdsPair) d)))
                 (Finite (p * p)))
              (GetRegionsPositions (getRegions regionsPerView (fst imageIdsPair) d))
              (GetRegionsPositions (getRegions regionsPerView (snd imageIdsPair) d)))
       else map_of matches d)"
    if "(\<exists>r. dDistanceRatio = Finite r \<and> r < 0) \<or> dDistanceRatio = NegInf" for d
    using geometry [OF negative [OF that]] entries [of d] squared
    by (simp add: guided_positions_step_Some)
  have pass: "distinct (map (decorate l r) (dedup_loop (decorate l r) [] ms))
      \<and> decorate l r ` set (dedup_loop (decorate l r) [] ms) = decorate l r ` set ms"
    for l r and ms :: IndMatches
    using dedup_loop_distinct [of "decorate l r" "[]" ms]
      dedup_loop_keys [of "decorate l r" "[]" ms] by simp
  show ?thesis
    using step descriptors returned unchanged pass
    by (auto simp del: map_of_eq_Some_iff)
qed

text \<open>
  The filter holds the precision 3 and the model \<open>diag(2, 2, 1)\<close>; image 0 has a valid
  camera, image 1 none; the output holds a match under descriptor type 5 at entry. With
  the ratio \<open>-1\<close> both features of image 0 match the first feature of image 1 (squared
  distance 4, within 9 and not within 3) and deduplication keeps one of the two; the entry
  of type 5 is kept. With the ratio 3/5 only the second feature passes the descriptor test
  (squared difference 1/4 against 49/100, at 9/25). With the ratio 0 and with a ratio that
  is not a number the descriptor branch runs and keeps nothing.
\<close>

theorem Geometry_guided_matching_mode_by_sign_witness:
  "m_dPrecision_robust guided_filter = Finite 3
   \<and> map_of (gm_matches (guided_run (Finite (- 1)))) 0 = Some [(0, 0)]
   \<and> map_of (gm_matches (guided_run (Finite (- 1)))) 5 = Some [(9, 9)]
   \<and> map_of (gm_matches (guided_run NegInf)) 0 = Some [(0, 0)]
   \<and> gm_matches (guided_run (Finite (3 / 5))) = [(5, [(9, 9)]), (0, [(1, 0)])]
   \<and> gm_matches (guided_run (Finite 0)) = [(5, [(9, 9)]), (0, [])]
   \<and> gm_matches (guided_run NaN) = [(5, [(9, 9)]), (0, [])]
   \<and> gm_matches (guided_run PosInf) = [(5, [(9, 9)]), (0, [(0, 0), (1, 0)])]
   \<and> gm_this (guided_run (Finite (- 1))) = guided_filter"
proof -
  have precision: "m_dPrecision_robust guided_filter = Finite 3"
    by (simp add: guided_filter_def)
  have types: "getCommonDescTypes guided_regions (0, 1) \<noteq> []"
    by (simp add: guided_regions_def)
  have view_I: "views example_scene (fst (0, 1))
      = Some \<lparr>ui_width = 640, ui_height = 480, id_intrinsic = 0\<rparr>"
    by (simp add: example_scene_def)
  have view_J: "views example_scene (snd (0, 1))
      = Some \<lparr>ui_width = 640, ui_height = 480, id_intrinsic = 7\<rparr>"
    by (simp add: example_scene_def)
  have cam_I: "Some (example_camera True)
      = (case intrinsics example_scene
                (id_intrinsic \<lparr>ui_width = 640, ui_height = 480, id_intrinsic = 0\<rparr>) of
           Some ptr \<Rightarrow> ptr | None \<Rightarrow> None)"
    by (simp add: example_scene_def example_camera_def)
  have cam_J: "None
      = (case intrinsics example_scene
                (id_intrinsic \<lparr>ui_width = 640, ui_height = 480, id_intrinsic = 7\<rparr>) of
           Some ptr \<Rightarrow> ptr | None \<Rightarrow> None)"
    by (simp add: example_scene_def)
  note modes = Geometry_guided_matching_mode_by_sign [OF precision types view_I view_J
      cam_I cam_J, where env = guided_collaborators and matches = "[(5, [(9, 9)])]"]
  have columns: "[0..<2] = [0, 1]"
    by (simp add: upt_rec)
  have below: "(\<exists>r. Finite (- 1) = Finite r \<and> r < 0) \<or> Finite (- 1) = NegInf"
    by simp
  have lowest: "(\<exists>r. NegInf = Finite r \<and> r < 0) \<or> NegInf = NegInf"
    by simp
  have above: "Finite (3 / 5) = Finite (3 / 5) \<and> (0 :: real) \<le> 3 / 5"
    by simp
  have boundary: "Finite 0 = Finite 0 \<and> (0 :: real) \<le> 0"
    by simp
  from modes [where dDistanceRatio = "Finite (- 1)", folded guided_run_def,
      THEN conjunct1, THEN mp, OF below, THEN conjunct1, THEN spec, of 0]
  have negative: "map_of (gm_matches (guided_run (Finite (- 1)))) 0 = Some [(0, 0)]"
    by (simp add: guided_defs example_camera_def columns)
  from modes [where dDistanceRatio = "Finite (- 1)", folded guided_run_def,
      THEN conjunct1, THEN mp, OF below, THEN conjunct1, THEN spec, of 5]
  have kept: "map_of (gm_matches (guided_run (Finite (- 1)))) 5 = Some [(9, 9)]"
    by (simp add: guided_regions_def)
  from modes [where dDistanceRatio = NegInf, folded guided_run_def,
      THEN conjunct1, THEN mp, OF lowest, THEN conjunct1, THEN spec, of 0]
  have minus_infinity: "map_of (gm_matches (guided_run NegInf)) 0 = Some [(0, 0)]"
    by (simp add: guided_defs example_camera_def columns)
  from modes [where dDistanceRatio = "Finite (3 / 5)", folded guided_run_def,
      THEN conjunct2, THEN conjunct1, THEN spec, THEN mp, OF above]
  have positive: "gm_matches (guided_run (Finite (3 / 5))) = [(5, [(9, 9)]), (0, [(1, 0)])]"
    by (simp add: guided_defs example_camera_def columns Let_def)
  from modes [where dDistanceRatio = "Finite 0", folded guided_run_def,
      THEN conjunct2, THEN conjunct1, THEN spec, THEN mp, OF boundary]
  have zero: "gm_matches (guided_run (Finite 0)) = [(5, [(9, 9)]), (0, [])]"
    by (simp add: guided_defs example_camera_def columns Let_def)
  from modes [where dDistanceRatio = NaN, folded guided_run_def,
      THEN conjunct2, THEN conjunct2, THEN conjunct1, THEN mp, OF refl]
  have nan: "gm_matches (guided_run NaN) = [(5, [(9, 9)]), (0, [])]"
    by (simp add: guided_defs example_camera_def columns Let_def)
  from modes [where dDistanceRatio = PosInf, folded guided_run_def,
      THEN conjunct2, THEN conjunct2, THEN conjunct2, THEN conjunct1, THEN mp, OF refl]
  have plus_infinity: "gm_matches (guided_run PosInf) = [(5, [(9, 9)]), (0, [(0, 0), (1, 0)])]"
    by (simp add: guided_defs example_camera_def columns Let_def)
  note unchanged = modes [where dDistanceRatio = "Finite (- 1)", folded guided_run_def,
      THEN conjunct2, THEN conjunct2, THEN conjunct2, THEN conjunct2, THEN conjunct2]
  from precision negative kept minus_infinity positive zero nan plus_infinity unchanged
  show ?thesis
    by simp
qed

section \<open>The inlier matches come from the putative matches\<close>























end
